theory Spec2Isabelle
  imports Main
begin

section \<open>Strings as Python sees them\<close>

text \<open>
  A Python \<open>str\<close> is modelled as a HOL \<open>string\<close> whose characters are the code points
  below 256 (Latin-1). The three string methods the program uses are written out on
  that range: \<open>lower\<close>, \<open>strip\<close> without argument and \<open>endswith\<close>.
\<close>

definition lower_char :: "char \<Rightarrow> char" where
  "lower_char c =
     (let n = (of_char c :: nat)
      in if (65 \<le> n \<and> n \<le> 90) \<or> (192 \<le> n \<and> n \<le> 222 \<and> n \<noteq> 215)
         then char_of (n + 32) else c)"

definition lower :: "string \<Rightarrow> string" where
  "lower s = map lower_char s"

text \<open>The characters \<open>str.isspace\<close> accepts below 256.\<close>

definition isspace :: "char \<Rightarrow> bool" where
  "isspace c =
     (let n = (of_char c :: nat)
      in (9 \<le> n \<and> n \<le> 13) \<or> (28 \<le> n \<and> n \<le> 32) \<or> n = 133 \<or> n = 160)"

definition strip :: "string \<Rightarrow> string" where
  "strip s = rev (dropWhile isspace (rev (dropWhile isspace s)))"

definition endswith :: "string \<Rightarrow> string \<Rightarrow> bool" where
  "endswith s suf =
     (length suf \<le> length s \<and> drop (length s - length suf) s = suf)"

text \<open>\<open>s.endswith(t)\<close> for a tuple \<open>t\<close> of suffixes.\<close>

definition endswith_any :: "string \<Rightarrow> string list \<Rightarrow> bool" where
  "endswith_any s sufs = (\<exists>suf \<in> set sufs. endswith s suf)"

subsection \<open>\<open>os.path.dirname\<close> (posixpath)\<close>

text \<open>
  \<^verbatim>\<open>
  def dirname(p):
      sep = '/'
      i = p.rfind(sep) + 1
      head = p[:i]
      if head and head != sep*len(head):
          head = head.rstrip(sep)
      return head
  \<close>
\<close>

fun rfind :: "string \<Rightarrow> char \<Rightarrow> int" where
  "rfind [] c = - 1"
| "rfind (x # xs) c =
     (let r = rfind xs c
      in if 0 \<le> r then r + 1 else if x = c then 0 else - 1)"

definition rstrip_char :: "string \<Rightarrow> char \<Rightarrow> string" where
  "rstrip_char s c = rev (dropWhile (\<lambda>x. x = c) (rev s))"

definition dirname :: "string \<Rightarrow> string" where
  "dirname p =
     (let sep = CHR ''/'';
          i = rfind p sep + 1;
          head = take (nat i) p
      in if head \<noteq> [] \<and> head \<noteq> replicate (length head) sep
         then rstrip_char head sep else head)"

section \<open>Exceptions\<close>

text \<open>
  The exceptions the program raises itself carry their message. \<open>EOFError\<close> is what
  \<open>input()\<close> raises at the end of the input, and \<open>LibraryError\<close> stands for any
  exception (a subclass of \<open>Exception\<close>) raised inside a wrapped library or by the
  operating system, with its \<open>str()\<close>.
\<close>

datatype error =
    ValueError string
  | FileNotFoundError string
  | RuntimeError string
  | EOFError
  | LibraryError string

fun str :: "error \<Rightarrow> string" where
  "str (ValueError m) = m"
| "str (FileNotFoundError m) = m"
| "str (RuntimeError m) = m"
| "str EOFError = []"
| "str (LibraryError m) = m"

section \<open>Filename validators\<close>

text \<open>
  What the validators read from the outside world: whether a name exists in the current
  directory (\<open>os.path.exists\<close>), and what opening and parsing a file with the PDF
  library or the image library raises, if anything.
\<close>

record env =
  path_exists :: "string \<Rightarrow> bool"
  PdfReader :: "string \<Rightarrow> error option"
  Image_verify :: "string \<Rightarrow> error option"

definition not_found :: "string \<Rightarrow> error" where
  "not_found filename =
     FileNotFoundError (''File '' @ [CHR 0x27] @ filename @ [CHR 0x27] @ '' not found'')"

definition validate_pdf_file :: "env \<Rightarrow> string \<Rightarrow> error + unit" where
  "validate_pdf_file e filename =
     (if dirname filename \<noteq> [] then Inl (ValueError ''Please enter filename only'')
      else if \<not> path_exists e filename then Inl (not_found filename)
      else if \<not> endswith (lower filename) ''.pdf'' then Inl (ValueError ''Not a PDF file'')
      else case PdfReader e filename of
             Some x \<Rightarrow> Inl x
           | None \<Rightarrow> Inr ())"

definition valid_extensions :: "string list" where
  "valid_extensions = [''.jpg'', ''.jpeg'', ''.png'', ''.webp'', ''.bmp'']"

definition validate_image_file :: "env \<Rightarrow> string \<Rightarrow> error + unit" where
  "validate_image_file e filename =
     (if dirname filename \<noteq> [] then Inl (ValueError ''Please enter filename only'')
      else if \<not> path_exists e filename then Inl (not_found filename)
      else if \<not> endswith_any (lower filename) valid_extensions
        then Inl (ValueError ''Not a supported image file'')
      else case Image_verify e filename of
             Some x \<Rightarrow> Inl (ValueError (''Invalid image file: '' @ str x))
           | None \<Rightarrow> Inr ())"

definition validate_office_file :: "env \<Rightarrow> string \<Rightarrow> string list \<Rightarrow> string \<Rightarrow> error + unit" where
  "validate_office_file e filename extensions file_type =
     (if dirname filename \<noteq> [] then Inl (ValueError ''Please enter filename only'')
      else if \<not> path_exists e filename then Inl (not_found filename)
      else if \<not> endswith_any (lower filename) extensions
        then Inl (ValueError (''Not a supported '' @ file_type @ '' file''))
      else Inr ())"

section \<open>Console\<close>

text \<open>
  The terminal is a list of pending input lines and the messages printed. \<open>input()\<close>
  takes the next line and raises \<open>EOFError\<close> when none is left. A message records
  which \<open>print\<close> statement ran and the values formatted into it; prompts, banners and
  clearing the screen are left out.
\<close>

datatype message =
    Validated string
  | ErrorMsg string
  | FilenameOnly
  | Added string
  | Failed string string
  | Created string
  | Stats int int
  | Critical string
  | Downloading
  | Processing
  | Generating
  | ArticleTitle string
  | ConversionFailed string
  | Processed string
  | NoValidImages
  | NumConverted int
  | ErrorConverting string string
  | Converted string
  | FailedToMerge string string
  | NoFilesSelected string
  | NoValidPdfs

section \<open>Interactive collectors\<close>

text \<open>
  Each collector is the loop of the source with its two loop variables as arguments:
  the list collected so far and the messages printed so far. It returns the list (or the
  exception that left the loop), the messages and the input lines not yet read.
\<close>

fun get_file_names_loop ::
  "env \<Rightarrow> string list \<Rightarrow> message list \<Rightarrow> string list
     \<Rightarrow> (error + string list) \<times> message list \<times> string list" where
  "get_file_names_loop e file_names out [] = (Inl EOFError, out, [])"
| "get_file_names_loop e file_names out (line # rest) =
     (let file_name = strip line
      in if lower file_name = ''q'' then (Inr file_names, out, rest)
         else case validate_pdf_file e file_name of
                Inr _ \<Rightarrow>
                  get_file_names_loop e (file_names @ [file_name])
                    (out @ [Validated file_name]) rest
              | Inl x \<Rightarrow>
                  get_file_names_loop e file_names (out @ [ErrorMsg (str x)]) rest)"

definition get_file_names ::
  "env \<Rightarrow> string list \<Rightarrow> (error + string list) \<times> message list \<times> string list" where
  "get_file_names e lines = get_file_names_loop e [] [] lines"

fun get_image_files_loop ::
  "env \<Rightarrow> string list \<Rightarrow> message list \<Rightarrow> string list
     \<Rightarrow> (error + string list) \<times> message list \<times> string list" where
  "get_image_files_loop e file_names out [] = (Inl EOFError, out, [])"
| "get_image_files_loop e file_names out (line # rest) =
     (let file_name = strip line
      in if lower file_name = ''q'' then (Inr file_names, out, rest)
         else case validate_image_file e file_name of
                Inr _ \<Rightarrow>
                  get_image_files_loop e (file_names @ [file_name])
                    (out @ [Validated file_name]) rest
              | Inl x \<Rightarrow>
                  get_image_files_loop e file_names (out @ [ErrorMsg (str x)]) rest)"

definition get_image_files ::
  "env \<Rightarrow> string list \<Rightarrow> (error + string list) \<times> message list \<times> string list" where
  "get_image_files e lines = get_image_files_loop e [] [] lines"

fun get_office_files_loop ::
  "env \<Rightarrow> string list \<Rightarrow> string \<Rightarrow> string list \<Rightarrow> message list \<Rightarrow> string list
     \<Rightarrow> (error + string list) \<times> message list \<times> string list" where
  "get_office_files_loop e extensions file_type file_names out [] = (Inl EOFError, out, [])"
| "get_office_files_loop e extensions file_type file_names out (line # rest) =
     (let file_name = strip line
      in if lower file_name = ''q'' then (Inr file_names, out, rest)
         else case validate_office_file e file_name extensions file_type of
                Inr _ \<Rightarrow>
                  get_office_files_loop e extensions file_type (file_names @ [file_name])
                    (out @ [Validated file_name]) rest
              | Inl x \<Rightarrow>
                  get_office_files_loop e extensions file_type file_names
                    (out @ [ErrorMsg (str x)]) rest)"

definition get_office_files ::
  "env \<Rightarrow> string list \<Rightarrow> string \<Rightarrow> string list
     \<Rightarrow> (error + string list) \<times> message list \<times> string list" where
  "get_office_files e extensions file_type lines =
     get_office_files_loop e extensions file_type [] [] lines"

section \<open>Output filename\<close>

fun get_output_filename_loop ::
  "string \<Rightarrow> message list \<Rightarrow> string list \<Rightarrow> (error + string) \<times> message list \<times> string list" where
  "get_output_filename_loop default_name out [] = (Inl EOFError, out, [])"
| "get_output_filename_loop default_name out (line # rest) =
     (let name = strip line;
          name = (if name = [] then default_name else name);
          name = (if \<not> endswith (lower name) ''.pdf'' then name @ ''.pdf'' else name)
      in if dirname name \<noteq> []
         then get_output_filename_loop default_name (out @ [FilenameOnly]) rest
         else (Inr name, out, rest))"

definition get_output_filename ::
  "string \<Rightarrow> string list \<Rightarrow> (error + string) \<times> message list \<times> string list" where
  "get_output_filename default_name lines = get_output_filename_loop default_name [] lines"

section \<open>Files on disk\<close>

text \<open>
  The current directory maps a name to what the file holds: a PDF with its pages, or
  \<open>Partial\<close>, whatever an interrupted write left behind. Writing the output either
  succeeds or raises; when it raises, the flag says whether a file was left at the output
  name (opening it for writing creates it before any page is written).
\<close>

datatype 'p content = Pdf "'p list" | Partial

datatype write_result = WriteOk | WriteFails error bool

datatype 'p render = Rendered "'p list" | RenderFails error bool

text \<open>
  \<open>if os.path.exists(name): os.remove(name)\<close>. The names of the current directory
  are regular files, and removing one that exists succeeds.
\<close>

definition remove_if_exists :: "(string \<rightharpoonup> 'c) \<Rightarrow> string \<Rightarrow> (string \<rightharpoonup> 'c)" where
  "remove_if_exists cwd name = (if cwd name \<noteq> None then cwd(name := None) else cwd)"

definition left_behind :: "(string \<rightharpoonup> 'p content) \<Rightarrow> string \<Rightarrow> bool \<Rightarrow> (string \<rightharpoonup> 'p content)" where
  "left_behind cwd name wrote = (if wrote then cwd(name \<mapsto> Partial) else cwd)"

section \<open>PDF merge driver\<close>

text \<open>
  \<open>merger.append(file_path)\<close> is a parameter: the pages it adds, or the exception it
  raises (the merge structure is then unchanged). The merge structure is the list of
  pages appended so far.
\<close>

fun merge_loop ::
  "(string \<Rightarrow> error + 'p list) \<Rightarrow> 'p list \<Rightarrow> int \<Rightarrow> message list \<Rightarrow> string list
     \<Rightarrow> 'p list \<times> int \<times> message list" where
  "merge_loop merger_append merger error_count out [] = (merger, error_count, out)"
| "merge_loop merger_append merger error_count out (file_path # rest) =
     (case merger_append file_path of
        Inr pages \<Rightarrow> merge_loop merger_append (merger @ pages) error_count (out @ [Added file_path]) rest
      | Inl x \<Rightarrow>
          merge_loop merger_append merger (error_count + 1) (out @ [Failed file_path (str x)]) rest)"

definition merge_pdfs ::
  "(string \<Rightarrow> error + 'p list) \<Rightarrow> (string \<Rightarrow> 'p list \<Rightarrow> write_result)
     \<Rightarrow> (string \<rightharpoonup> 'p content) \<Rightarrow> string list \<Rightarrow> string
     \<Rightarrow> (string \<rightharpoonup> 'p content) \<times> message list" where
  "merge_pdfs merger_append merger_write cwd file_paths output_filename =
     (case merge_loop merger_append [] 0 [] file_paths of
        (merger, error_count, out) \<Rightarrow>
          (case merger_write output_filename merger of
             WriteOk \<Rightarrow>
               (cwd(output_filename \<mapsto> Pdf merger),
                out @ [Created output_filename,
                       Stats (int (length file_paths) - error_count) error_count])
           | WriteFails x wrote \<Rightarrow>
               (left_behind cwd output_filename wrote, out @ [Critical (str x)])))"

section \<open>Blog-to-PDF driver\<close>

definition styles :: string where
  "styles =
     [CHR 0x0A] @
     ''    <style>'' @ [CHR 0x0A] @
     ''        body { font-family: Arial, sans-serif; line-height: 1.6; margin: 2cm; }'' @ [CHR 0x0A] @
     ''        img { max-width: 100%; height: auto; }'' @ [CHR 0x0A] @
     ''        pre { background: #f4f4f4; padding: 10px; overflow: auto; }'' @ [CHR 0x0A] @
     ''        code { font-family: Monaco, Consolas, monospace; }'' @ [CHR 0x0A] @
     ''        h1, h2, h3 { color: #2c3e50; }'' @ [CHR 0x0A] @
     ''        a { color: #3498db; text-decoration: none; }'' @ [CHR 0x0A] @
     ''    </style>'' @ [CHR 0x0A] @
     ''    ''"

definition add_pdf_styles :: "string \<Rightarrow> string" where
  "add_pdf_styles html_content = styles @ [CHR 0x0A] @ html_content"

text \<open>
  The libraries of the blog driver: \<open>requests_get\<close> is the request with its timeout
  followed by \<open>raise_for_status\<close> (the response text, or the exception),
  \<open>doc_summary\<close> and \<open>doc_title\<close> are the readability extraction of a page, and
  \<open>from_string\<close> is the renderer called on the styled HTML and the output name.
\<close>

record 'p blog_lib =
  requests_get :: "string \<Rightarrow> error + string"
  doc_summary :: "string \<Rightarrow> error + string"
  doc_title :: "string \<Rightarrow> error + string"
  from_string :: "string \<Rightarrow> string \<Rightarrow> 'p render"

text \<open>The \<open>except\<close> block of \<open>convert_blog\<close> and of \<open>convert_images_to_pdf\<close>.\<close>

definition conversion_failed ::
  "(string \<rightharpoonup> 'c) \<Rightarrow> message list \<Rightarrow> error \<Rightarrow> string \<Rightarrow> (string \<rightharpoonup> 'c) \<times> message list" where
  "conversion_failed cwd out x output_filename =
     (remove_if_exists cwd output_filename, out @ [ConversionFailed (str x)])"

definition convert_blog ::
  "'p blog_lib \<Rightarrow> (string \<rightharpoonup> 'p content) \<Rightarrow> string \<Rightarrow> string
     \<Rightarrow> (string \<rightharpoonup> 'p content) \<times> message list" where
  "convert_blog lib cwd url output_filename =
     (case requests_get lib url of
        Inl x \<Rightarrow> conversion_failed cwd [Downloading] x output_filename
      | Inr response_text \<Rightarrow>
          (case doc_summary lib response_text of
             Inl x \<Rightarrow> conversion_failed cwd [Downloading, Processing] x output_filename
           | Inr content \<Rightarrow>
               (case from_string lib (add_pdf_styles content) output_filename of
                  RenderFails x wrote \<Rightarrow>
                    conversion_failed (left_behind cwd output_filename wrote)
                      [Downloading, Processing, Generating] x output_filename
                | Rendered pages \<Rightarrow>
                    (case doc_title lib response_text of
                       Inl x \<Rightarrow>
                         conversion_failed (cwd(output_filename \<mapsto> Pdf pages))
                           [Downloading, Processing, Generating, Created output_filename]
                           x output_filename
                     | Inr title \<Rightarrow>
                         (cwd(output_filename \<mapsto> Pdf pages),
                          [Downloading, Processing, Generating, Created output_filename,
                           ArticleTitle title])))))"

section \<open>Image-to-PDF driver\<close>

text \<open>
  An opened image has a colour mode and the path it was read from. The image library
  is a parameter: \<open>Image_open\<close> gives the image or the exception of \<open>Image.open\<close>,
  \<open>Image_convert\<close> says which exception \<open>img.convert(m)\<close> raises, if any, and
  \<open>save\<close> gives the pages written or the exception. A conversion that does not raise
  gives the image in mode \<open>m\<close>.
\<close>

record img =
  mode :: string
  origin :: string




section \<open>Office-to-PDF driver\<close>

subsection \<open>\<open>os.path.basename\<close>, \<open>os.path.splitext\<close> and \<open>os.path.join\<close> (posixpath)\<close>

definition basename :: "string \<Rightarrow> string" where
  "basename p = drop (nat (rfind p CHR ''/'' + 1)) p"

text \<open>
  The first component of \<open>splitext(p)\<close>: the extension starts at the last dot, unless
  that dot is not after the last separator or only dots stand between the two.
\<close>

definition splitext_root :: "string \<Rightarrow> string" where
  "splitext_root p =
     (let sepIndex = rfind p CHR ''/'';
          dotIndex = rfind p CHR ''.''
      in if dotIndex > sepIndex \<and>
            (\<exists>c \<in> set (take (nat (dotIndex - (sepIndex + 1))) (drop (nat (sepIndex + 1)) p)).
               c \<noteq> CHR ''.'')
         then take (nat dotIndex) p else p)"

definition join :: "string \<Rightarrow> string \<Rightarrow> string" where
  "join a b =
     (if b \<noteq> [] \<and> hd b = CHR ''/'' then b
      else if a = [] \<or> last a = CHR ''/'' then a @ b
      else a @ ''/'' @ b)"

subsection \<open>The temporary directory\<close>

text \<open>
  The state of the disk for this driver: the files of the current directory, and the
  temporary directory of the run, \<open>None\<close> while it does not exist and otherwise the
  files in it, each path with what the file holds. Writing a file replaces the file of
  the same path.
\<close>

record 'p world =
  disk :: "string \<rightharpoonup> 'p content"
  tmp :: "(string \<times> 'p content) list option"

definition write_entry ::
  "string \<Rightarrow> 'c \<Rightarrow> (string \<times> 'c) list \<Rightarrow> (string \<times> 'c) list" where
  "write_entry path c entries = (path, c) # filter (\<lambda>entry. fst entry \<noteq> path) entries"

text \<open>
  \<open>tempfile.TemporaryDirectory()\<close> creates the directory and registers a finalizer
  (\<open>weakref.finalize\<close>) that removes it when the object is released.
  \<open>temp_dir.cleanup()\<close> removes the directory and detaches the finalizer. The object
  is held by the local \<open>temp_dir\<close> alone (only its name, a string, is passed on), so
  under reference counting it is released when the frame of the driver ends:
  \<open>release_temp_dir\<close> is what the finalizer does then, removing the directory if
  it is still there.
\<close>

definition create_temp_dir :: "'p world \<Rightarrow> 'p world" where
  "create_temp_dir w = w\<lparr>tmp := Some []\<rparr>"

definition cleanup :: "'p world \<Rightarrow> 'p world" where
  "cleanup w = w\<lparr>tmp := None\<rparr>"

definition release_temp_dir :: "'p world \<Rightarrow> 'p world" where
  "release_temp_dir w = (if tmp w \<noteq> None then w\<lparr>tmp := None\<rparr> else w)"

subsection \<open>The driver\<close>

text \<open>
  The converter subprocess, called with the output directory and the input path: it
  exits with an error (\<open>check=True\<close> raises), or exits normally, having written the
  expected file or not. \<open>office_append\<close> is what \<open>merger.append\<close> does with a file
  of the temporary directory, given what the file holds.
\<close>

datatype 'p conv = ProcessError error | Exited "'p content option"

record 'p office_lib =
  libreoffice :: "string \<Rightarrow> string \<Rightarrow> 'p conv"
  office_append :: "'p content \<Rightarrow> error + 'p list"
  office_write :: "string \<Rightarrow> 'p list \<Rightarrow> write_result"
  mkdtemp :: string

text \<open>
  \<open>convert_office_to_pdf\<close> returns the generated path or \<open>None\<close>, with the files of
  the temporary directory afterwards and the message it printed. The generated path is
  returned when a file exists there, written by this conversion or by an earlier one of
  the same stem.
\<close>

definition convert_office_to_pdf ::
  "'p office_lib \<Rightarrow> (string \<times> 'p content) list \<Rightarrow> string \<Rightarrow> string \<Rightarrow> string
     \<Rightarrow> string option \<times> (string \<times> 'p content) list \<times> message list" where
  "convert_office_to_pdf lib entries input_path temp_dir file_type =
     (case libreoffice lib temp_dir input_path of
        ProcessError x \<Rightarrow> (None, entries, [ErrorConverting input_path (str x)])
      | Exited written \<Rightarrow>
          (let base_name = splitext_root (basename input_path) @ ''.pdf'';
               generated_pdf = join temp_dir base_name;
               entries' = (case written of
                             Some c \<Rightarrow> write_entry generated_pdf c entries
                           | None \<Rightarrow> entries)
           in if map_of entries' generated_pdf \<noteq> None
              then (Some generated_pdf, entries', [])
              else (None, entries',
                    [ErrorConverting input_path
                       (str (RuntimeError (file_type @ '' conversion failed'')))])))"

text \<open>\<open>merger.append(temp_pdf)\<close>: the file at that path is opened and read.\<close>

definition append_temp_pdf ::
  "'p office_lib \<Rightarrow> (string \<times> 'p content) list \<Rightarrow> string \<Rightarrow> error + 'p list" where
  "append_temp_pdf lib entries temp_pdf =
     (case map_of entries temp_pdf of
        None \<Rightarrow> Inl (FileNotFoundError temp_pdf)
      | Some c \<Rightarrow> office_append lib c)"

fun office_loop ::
  "'p office_lib \<Rightarrow> string \<Rightarrow> 'p list \<Rightarrow> int \<Rightarrow> (string \<times> 'p content) list \<Rightarrow> message list
     \<Rightarrow> string list \<Rightarrow> 'p list \<times> int \<times> (string \<times> 'p content) list \<times> message list" where
  "office_loop lib file_type merger error_count entries out [] =
     (merger, error_count, entries, out)"
| "office_loop lib file_type merger error_count entries out (file_path # rest) =
     (case convert_office_to_pdf lib entries file_path (mkdtemp lib) file_type of
        (temp_pdf, entries', printed) \<Rightarrow>
          (case temp_pdf of
             None \<Rightarrow>
               office_loop lib file_type merger (error_count + 1) entries' (out @ printed) rest
           | Some path \<Rightarrow>
               if path = [] then
                 office_loop lib file_type merger (error_count + 1) entries' (out @ printed) rest
               else
                 (case append_temp_pdf lib entries' path of
                    Inr pages \<Rightarrow>
                      office_loop lib file_type (merger @ pages) error_count entries'
                        (out @ printed @ [Converted file_path]) rest
                  | Inl x \<Rightarrow>
                      office_loop lib file_type merger (error_count + 1) entries'
                        (out @ printed @ [FailedToMerge file_path (str x)]) rest)))"

text \<open>
  The driver returns the exception that left it, if any, the disk, the messages and
  the input lines not yet read. \<open>w1\<close> is the disk once the temporary directory is
  created, \<open>w2\<close> the disk after the conversions. Every return after that point ends
  the frame and so releases \<open>temp_dir\<close>: the return of the zero-page warning, which
  stands before the \<open>try ... finally\<close> block, and the end of the function after the
  \<open>finally\<close> block, where \<open>cleanup\<close> has already removed the directory.
\<close>

definition handle_office_conversion ::
  "env \<Rightarrow> 'p office_lib \<Rightarrow> 'p world \<Rightarrow> string \<Rightarrow> string list \<Rightarrow> string \<Rightarrow> string list
     \<Rightarrow> error option \<times> 'p world \<times> message list \<times> string list" where
  "handle_office_conversion e lib w file_type extensions default_output lines =
     (case get_office_files e extensions file_type lines of
        (Inl x, out, rest) \<Rightarrow> (Some x, w, out, rest)
      | (Inr files, out, rest) \<Rightarrow>
          if files = [] then (None, w, out @ [NoFilesSelected file_type], rest)
          else
            (case get_output_filename default_output rest of
               (Inl x, out2, rest2) \<Rightarrow> (Some x, w, out @ out2, rest2)
             | (Inr output_name, out2, rest2) \<Rightarrow>
                 (let w1 = create_temp_dir w
                  in case office_loop lib file_type [] 0 [] [] files of
                       (merger, error_count, entries, out3) \<Rightarrow>
                         (let w2 = w1\<lparr>tmp := Some entries\<rparr>
                          in if length merger = 0 then
                               (None, release_temp_dir w2,
                                out @ out2 @ out3 @ [NoValidPdfs], rest2)
                             else
                               (case office_write lib output_name merger of
                                  WriteOk \<Rightarrow>
                                    (None,
                                     release_temp_dir
                                       (cleanup
                                          (w2\<lparr>disk := (disk w2)(output_name \<mapsto> Pdf merger)\<rparr>)),
                                     out @ out2 @ out3 @
                                       [Created output_name,
                                        Stats (int (length files) - error_count) error_count],
                                     rest2)
                                | WriteFails x wrote \<Rightarrow>
                                    (None,
                                     release_temp_dir
                                       (cleanup
                                          (w2\<lparr>disk := left_behind (disk w2) output_name wrote\<rparr>)),
                                     out @ out2 @ out3 @ [Critical (str x)],
                                     rest2))))))"

section \<open>Notions used in the statements\<close>

text \<open>The test that ends a collection loop: the stripped line, lowered, is \<open>q\<close>.\<close>

definition is_sentinel :: "string \<Rightarrow> bool" where
  "is_sentinel line = (lower (strip line) = ''q'')"

text \<open>What a collector prints for a candidate, given the validator's verdict.\<close>

definition echo :: "string \<Rightarrow> error + unit \<Rightarrow> message" where
  "echo file_name verdict =
     (case verdict of Inr _ \<Rightarrow> Validated file_name | Inl x \<Rightarrow> ErrorMsg (str x))"

text \<open>The lines read before the sentinel, stripped, and the input left after it.\<close>

definition candidates :: "string list \<Rightarrow> string list" where
  "candidates lines = map strip (takeWhile (\<lambda>l. \<not> is_sentinel l) lines)"

definition after_sentinel :: "string list \<Rightarrow> string list" where
  "after_sentinel lines = tl (dropWhile (\<lambda>l. \<not> is_sentinel l) lines)"

text \<open>
  The name the output-filename routine works on for an input line: the stripped line, or
  the default name when that is empty.
\<close>

definition entered_name :: "string \<Rightarrow> string \<Rightarrow> string" where
  "entered_name default_name line =
     (if strip line = [] then default_name else strip line)"

text \<open>What one append attempt of the merge driver contributes and prints.\<close>

definition pages_of :: "(string \<Rightarrow> error + 'p list) \<Rightarrow> string \<Rightarrow> 'p list" where
  "pages_of merger_append file_path =
     (case merger_append file_path of Inr pages \<Rightarrow> pages | Inl _ \<Rightarrow> [])"

definition append_echo :: "(string \<Rightarrow> error + 'p list) \<Rightarrow> string \<Rightarrow> message" where
  "append_echo merger_append file_path =
     (case merger_append file_path of
        Inr _ \<Rightarrow> Added file_path
      | Inl x \<Rightarrow> Failed file_path (str x))"

definition failed_appends :: "(string \<Rightarrow> error + 'p list) \<Rightarrow> string list \<Rightarrow> int" where
  "failed_appends merger_append file_paths =
     int (length (filter (\<lambda>f. isl (merger_append f)) file_paths))"




section \<open>Properties\<close>

lemma rfind_nonneg_iff: "0 \<le> rfind p c \<longleftrightarrow> c \<in> set p"
  by (induction p) (auto simp: Let_def)

lemma rfind_bounds: "- 1 \<le> rfind p c \<and> rfind p c < int (length p)"
  by (induction p) (auto simp: Let_def)

lemma rstrip_char_eq_Nil: "rstrip_char s c = [] \<longleftrightarrow> s = replicate (length s) c"
proof
  assume "rstrip_char s c = []"
  then have "dropWhile (\<lambda>x. x = c) (rev s) = []" by (simp add: rstrip_char_def)
  then have "\<forall>x \<in> set (rev s). x = c" by (simp add: dropWhile_eq_Nil_conv)
  then have "\<forall>x \<in> set s. x = c" by simp
  then show "s = replicate (length s) c"
    by (simp add: replicate_length_same)
next
  assume "s = replicate (length s) c"
  then have "\<forall>x \<in> set s. x = c"
    by (metis in_set_replicate)
  then have "dropWhile (\<lambda>x. x = c) (rev s) = []"
    by (simp add: dropWhile_eq_Nil_conv)
  then show "rstrip_char s c = []" by (simp add: rstrip_char_def)
qed

lemma dirname_nonempty_iff: "dirname p \<noteq> [] \<longleftrightarrow> CHR ''/'' \<in> set p"
proof (cases "CHR ''/'' \<in> set p")
  case True
  then have r: "0 \<le> rfind p CHR ''/''" by (simp add: rfind_nonneg_iff)
  moreover have "rfind p CHR ''/'' < int (length p)" using rfind_bounds by blast
  ultimately have "take (nat (rfind p CHR ''/'' + 1)) p \<noteq> []"
    using True by (cases p) auto
  with True show ?thesis
    by (auto simp: dirname_def Let_def rstrip_char_eq_Nil)
next
  case False
  then have "\<not> 0 \<le> rfind p CHR ''/''" by (simp add: rfind_nonneg_iff)
  moreover have "- 1 \<le> rfind p CHR ''/''" using rfind_bounds by blast
  ultimately have "rfind p CHR ''/'' = - 1" by linarith
  with False show ?thesis by (simp add: dirname_def Let_def)
qed

subsection \<open>The validators\<close>

lemma validate_pdf_file_path:
  "CHR ''/'' \<in> set filename \<Longrightarrow>
   validate_pdf_file e filename = Inl (ValueError ''Please enter filename only'')"
  by (simp add: validate_pdf_file_def dirname_nonempty_iff)

lemma validate_image_file_path:
  "CHR ''/'' \<in> set filename \<Longrightarrow>
   validate_image_file e filename = Inl (ValueError ''Please enter filename only'')"
  by (simp add: validate_image_file_def dirname_nonempty_iff)

lemma validate_office_file_path:
  "CHR ''/'' \<in> set filename \<Longrightarrow>
   validate_office_file e filename extensions file_type =
     Inl (ValueError ''Please enter filename only'')"
  by (simp add: validate_office_file_def dirname_nonempty_iff)

text \<open>
  C6. A candidate that contains the directory separator is rejected by every validator
  (PDF, image, and office with any extension set and label) with the path error, which is
  the \<open>ValueError\<close> "Please enter filename only", whatever exists on disk.
\<close>

theorem validator_rejects_path:
  assumes "CHR ''/'' \<in> set filename"
  shows "validate_pdf_file e filename = Inl (ValueError ''Please enter filename only'')
       \<and> validate_image_file e filename = Inl (ValueError ''Please enter filename only'')
       \<and> validate_office_file e filename extensions file_type =
           Inl (ValueError ''Please enter filename only'')"
  using assms
  by (simp add: validate_pdf_file_path validate_image_file_path validate_office_file_path)

theorem validator_rejects_path_witness:
  "validate_pdf_file \<lparr>path_exists = (\<lambda>f. True), PdfReader = (\<lambda>f. None), Image_verify = (\<lambda>f. None)\<rparr>
     ''docs/a.pdf'' = Inl (ValueError ''Please enter filename only'')
   \<and> validate_image_file \<lparr>path_exists = (\<lambda>f. True), PdfReader = (\<lambda>f. None), Image_verify = (\<lambda>f. None)\<rparr>
     ''docs/a.pdf'' = Inl (ValueError ''Please enter filename only'')
   \<and> validate_office_file \<lparr>path_exists = (\<lambda>f. True), PdfReader = (\<lambda>f. None), Image_verify = (\<lambda>f. None)\<rparr>
     ''docs/a.pdf'' [''.pdf''] ''Word'' = Inl (ValueError ''Please enter filename only'')"
proof -
  have h: "CHR ''/'' \<in> set ''docs/a.pdf''" by simp
  show ?thesis by (rule validator_rejects_path [OF h])
qed

text \<open>
  C5. A candidate without directory separator that names no existing file fails, in
  every category, with the not-found error (\<open>FileNotFoundError\<close>) and so with none of
  the unsupported-extension errors. This holds for every extension, the accepted ones
  included: existence is checked before the extension.
\<close>

theorem missing_file_is_not_found:
  assumes "CHR ''/'' \<notin> set filename" and "\<not> path_exists e filename"
  shows "validate_pdf_file e filename = Inl (not_found filename)
       \<and> validate_image_file e filename = Inl (not_found filename)
       \<and> validate_office_file e filename extensions file_type = Inl (not_found filename)
       \<and> validate_pdf_file e filename \<noteq> Inl (ValueError ''Not a PDF file'')
       \<and> validate_image_file e filename \<noteq> Inl (ValueError ''Not a supported image file'')
       \<and> validate_office_file e filename extensions file_type \<noteq>
           Inl (ValueError (''Not a supported '' @ file_type @ '' file''))"
proof -
  from assms(1) have d: "dirname filename = []"
    using dirname_nonempty_iff by blast
  show ?thesis
    using d assms(2)
    by (simp add: validate_pdf_file_def validate_image_file_def validate_office_file_def
        not_found_def)
qed

theorem missing_file_is_not_found_witness:
  "endswith (lower ''Gone.PDF'') ''.pdf''
   \<and> validate_pdf_file \<lparr>path_exists = (\<lambda>f. False), PdfReader = (\<lambda>f. None), Image_verify = (\<lambda>f. None)\<rparr>
       ''Gone.PDF'' = Inl (not_found ''Gone.PDF'')
   \<and> validate_office_file \<lparr>path_exists = (\<lambda>f. False), PdfReader = (\<lambda>f. None), Image_verify = (\<lambda>f. None)\<rparr>
       ''Gone.PDF'' [''.pdf''] ''Word'' = Inl (not_found ''Gone.PDF'')"
proof -
  have h1: "CHR ''/'' \<notin> set ''Gone.PDF''" by simp
  have h2: "\<not> path_exists \<lparr>path_exists = (\<lambda>f. False), PdfReader = (\<lambda>f. None), Image_verify = (\<lambda>f. None)\<rparr> ''Gone.PDF''"
    by simp
  have h3: "endswith (lower ''Gone.PDF'') ''.pdf''" by code_simp
  from missing_file_is_not_found [OF h1 h2, of "[''.pdf'']" "''Word''"] h3
  show ?thesis by blast
qed

subsection \<open>The collectors\<close>

text \<open>
  Each loop, started from any collected list and any printed messages, reads up to the
  first sentinel line: the candidates before it are validated in order, and the input
  after it is left unread.
\<close>

lemma candidates_Nil [simp]: "candidates [] = []"
  by (simp add: candidates_def)

lemma candidates_Cons:
  "candidates (line # rest) = (if is_sentinel line then [] else strip line # candidates rest)"
  by (simp add: candidates_def)

lemma after_sentinel_Cons:
  "after_sentinel (line # rest) = (if is_sentinel line then rest else after_sentinel rest)"
  by (simp add: after_sentinel_def)

lemma candidates_not_q: "f \<in> set (candidates lines) \<Longrightarrow> lower f \<noteq> ''q''"
proof -
  assume "f \<in> set (candidates lines)"
  then obtain l where l: "l \<in> set (takeWhile (\<lambda>l. \<not> is_sentinel l) lines)" and f: "f = strip l"
    by (auto simp: candidates_def)
  from l have "\<not> is_sentinel l" by (rule set_takeWhileD [THEN conjunct2])
  with f show ?thesis by (simp add: is_sentinel_def)
qed

lemma get_file_names_loop_eq:
  "get_file_names_loop e acc out lines =
     ((if \<exists>l \<in> set lines. is_sentinel l
       then Inr (acc @ filter (\<lambda>f. validate_pdf_file e f = Inr ()) (candidates lines))
       else Inl EOFError),
      out @ map (\<lambda>f. echo f (validate_pdf_file e f)) (candidates lines),
      after_sentinel lines)"
proof (induction lines arbitrary: acc out)
  case Nil
  show ?case by (simp add: after_sentinel_def)
next
  case (Cons line rest)
  show ?case
  proof (cases "is_sentinel line")
    case True
    then show ?thesis
      by (simp add: candidates_Cons after_sentinel_Cons is_sentinel_def)
  next
    case False
    then have nq: "lower (strip line) \<noteq> ''q''" by (simp add: is_sentinel_def)
    show ?thesis
    proof (cases "validate_pdf_file e (strip line)")
      case (Inl x)
      with False nq show ?thesis
        by (simp add: Cons.IH candidates_Cons after_sentinel_Cons echo_def Let_def)
    next
      case (Inr u)
      with False nq show ?thesis
        by (simp add: Cons.IH candidates_Cons after_sentinel_Cons echo_def Let_def)
    qed
  qed
qed

lemma get_image_files_loop_eq:
  "get_image_files_loop e acc out lines =
     ((if \<exists>l \<in> set lines. is_sentinel l
       then Inr (acc @ filter (\<lambda>f. validate_image_file e f = Inr ()) (candidates lines))
       else Inl EOFError),
      out @ map (\<lambda>f. echo f (validate_image_file e f)) (candidates lines),
      after_sentinel lines)"
proof (induction lines arbitrary: acc out)
  case Nil
  show ?case by (simp add: after_sentinel_def)
next
  case (Cons line rest)
  show ?case
  proof (cases "is_sentinel line")
    case True
    then show ?thesis
      by (simp add: candidates_Cons after_sentinel_Cons is_sentinel_def)
  next
    case False
    then have nq: "lower (strip line) \<noteq> ''q''" by (simp add: is_sentinel_def)
    show ?thesis
    proof (cases "validate_image_file e (strip line)")
      case (Inl x)
      with False nq show ?thesis
        by (simp add: Cons.IH candidates_Cons after_sentinel_Cons echo_def Let_def)
    next
      case (Inr u)
      with False nq show ?thesis
        by (simp add: Cons.IH candidates_Cons after_sentinel_Cons echo_def Let_def)
    qed
  qed
qed

lemma get_office_files_loop_eq:
  "get_office_files_loop e extensions file_type acc out lines =
     ((if \<exists>l \<in> set lines. is_sentinel l
       then Inr (acc @ filter (\<lambda>f. validate_office_file e f extensions file_type = Inr ())
                        (candidates lines))
       else Inl EOFError),
      out @ map (\<lambda>f. echo f (validate_office_file e f extensions file_type)) (candidates lines),
      after_sentinel lines)"
proof (induction lines arbitrary: acc out)
  case Nil
  show ?case by (simp add: after_sentinel_def)
next
  case (Cons line rest)
  show ?case
  proof (cases "is_sentinel line")
    case True
    then show ?thesis
      by (simp add: candidates_Cons after_sentinel_Cons is_sentinel_def)
  next
    case False
    then have nq: "lower (strip line) \<noteq> ''q''" by (simp add: is_sentinel_def)
    show ?thesis
    proof (cases "validate_office_file e (strip line) extensions file_type")
      case (Inl x)
      with False nq show ?thesis
        by (simp add: Cons.IH candidates_Cons after_sentinel_Cons echo_def Let_def)
    next
      case (Inr u)
      with False nq show ?thesis
        by (simp add: Cons.IH candidates_Cons after_sentinel_Cons echo_def Let_def)
    qed
  qed
qed

text \<open>
  C4, as the claim states it, fails: the sentinel of the code is \<open>q\<close>, not \<open>quit\<close>.
  With nothing on disk, the line \<open>quit\<close> is validated as a filename, rejected as not
  found, and the loop goes on to read the next line; and the line \<open>q\<close>, which does not
  equal \<open>quit\<close> in any letter case, ends the loop with the following line unread.
\<close>

theorem collector_quit_counterexample:
  "get_file_names \<lparr>path_exists = (\<lambda>f. False), PdfReader = (\<lambda>f. None), Image_verify = (\<lambda>f. None)\<rparr>
     [''quit'', ''q'', ''a.pdf'']
   = (Inr [], [ErrorMsg (str (not_found ''quit''))], [''a.pdf''])
   \<and> lower ''quit'' = ''quit'' \<and> lower ''q'' \<noteq> ''quit''"
  by code_simp

text \<open>
  C4, amended. For every sequence of input lines, the PDF collector stops at the first
  line that, stripped of surrounding whitespace and lowered, equals \<open>q\<close>, and at no
  other line. It then returns the accepted candidates in input order (possibly none) and
  leaves the rest of the input unread. Every line before that one is stripped and
  validated, and is either appended and confirmed or answered with the failure reason,
  without ending the loop. When no line is the sentinel, the loop runs until the input is
  exhausted and \<open>input()\<close> raises \<open>EOFError\<close>.
\<close>

theorem collector_stops_at_q:
  "get_file_names e lines =
     ((if \<exists>l \<in> set lines. is_sentinel l
       then Inr (filter (\<lambda>f. validate_pdf_file e f = Inr ()) (candidates lines))
       else Inl EOFError),
      map (\<lambda>f. echo f (validate_pdf_file e f)) (candidates lines),
      after_sentinel lines)"
  by (simp add: get_file_names_def get_file_names_loop_eq)

theorem collector_stops_at_q_witness:
  "get_file_names \<lparr>path_exists = (\<lambda>f. f = ''a.pdf''), PdfReader = (\<lambda>f. None), Image_verify = (\<lambda>f. None)\<rparr>
     [''quit'', '' a.pdf'', ''Q '', ''b.pdf'']
   = (Inr [''a.pdf''], [ErrorMsg (str (not_found ''quit'')), Validated ''a.pdf''], [''b.pdf''])"
proof -
  have "get_file_names \<lparr>path_exists = (\<lambda>f. f = ''a.pdf''), PdfReader = (\<lambda>f. None), Image_verify = (\<lambda>f. None)\<rparr>
     [''quit'', '' a.pdf'', ''Q '', ''b.pdf'']
   = ((if \<exists>l \<in> set [''quit'', '' a.pdf'', ''Q '', ''b.pdf'']. is_sentinel l
       then Inr (filter (\<lambda>f. validate_pdf_file \<lparr>path_exists = (\<lambda>f. f = ''a.pdf''), PdfReader = (\<lambda>f. None), Image_verify = (\<lambda>f. None)\<rparr> f = Inr ())
                   (candidates [''quit'', '' a.pdf'', ''Q '', ''b.pdf'']))
       else Inl EOFError),
      map (\<lambda>f. echo f (validate_pdf_file \<lparr>path_exists = (\<lambda>f. f = ''a.pdf''), PdfReader = (\<lambda>f. None), Image_verify = (\<lambda>f. None)\<rparr> f))
        (candidates [''quit'', '' a.pdf'', ''Q '', ''b.pdf'']),
      after_sentinel [''quit'', '' a.pdf'', ''Q '', ''b.pdf''])"
    by (rule collector_stops_at_q)
  also have "\<dots> = (Inr [''a.pdf''], [ErrorMsg (str (not_found ''quit'')), Validated ''a.pdf''], [''b.pdf''])"
    by code_simp
  finally show ?thesis .
qed

text \<open>
  C10. Whatever the input lines and whatever exists on disk, a list returned by the PDF,
  image or office collector has no entry that equals \<open>q\<close> once lowered: such a line ends
  the loop before it is validated.
\<close>

theorem collectors_never_return_q:
  "(fst (get_file_names e lines) = Inr pdfs \<longrightarrow> (\<forall>f \<in> set pdfs. lower f \<noteq> ''q''))
   \<and> (fst (get_image_files e lines) = Inr images \<longrightarrow> (\<forall>f \<in> set images. lower f \<noteq> ''q''))
   \<and> (fst (get_office_files e extensions file_type lines) = Inr docs \<longrightarrow>
        (\<forall>f \<in> set docs. lower f \<noteq> ''q''))"
  by (auto simp: get_file_names_def get_file_names_loop_eq
      get_image_files_def get_image_files_loop_eq
      get_office_files_def get_office_files_loop_eq
      split: if_splits dest: candidates_not_q)

text \<open>
  A run where every name exists on disk, a file named \<open>q\<close> included, and \<open>q\<close> would
  even pass the office validator's extension test: the line \<open>Q\<close> ends each loop.
\<close>

theorem collectors_never_return_q_witness:
  "validate_office_file \<lparr>path_exists = (\<lambda>f. True), PdfReader = (\<lambda>f. None), Image_verify = (\<lambda>f. None)\<rparr>
     ''q'' [''.docx'', ''q''] ''Word'' = Inr ()
   \<and> fst (get_file_names \<lparr>path_exists = (\<lambda>f. True), PdfReader = (\<lambda>f. None), Image_verify = (\<lambda>f. None)\<rparr>
       [''a.pdf'', ''b.png'', ''c.docx'', ''Q'', ''q'']) = Inr [''a.pdf'']
   \<and> fst (get_image_files \<lparr>path_exists = (\<lambda>f. True), PdfReader = (\<lambda>f. None), Image_verify = (\<lambda>f. None)\<rparr>
       [''a.pdf'', ''b.png'', ''c.docx'', ''Q'', ''q'']) = Inr [''b.png'']
   \<and> fst (get_office_files \<lparr>path_exists = (\<lambda>f. True), PdfReader = (\<lambda>f. None), Image_verify = (\<lambda>f. None)\<rparr>
       [''.docx'', ''q''] ''Word'' [''a.pdf'', ''b.png'', ''c.docx'', ''Q'', ''q'']) = Inr [''c.docx'']
   \<and> lower ''a.pdf'' \<noteq> ''q'' \<and> lower ''b.png'' \<noteq> ''q'' \<and> lower ''c.docx'' \<noteq> ''q''"
proof -
  let ?E = "\<lparr>path_exists = (\<lambda>f. True), PdfReader = (\<lambda>f. None), Image_verify = (\<lambda>f. None)\<rparr>"
  let ?L = "[''a.pdf'', ''b.png'', ''c.docx'', ''Q'', ''q'']"
  have v: "validate_office_file ?E ''q'' [''.docx'', ''q''] ''Word'' = Inr ()" by code_simp
  have a: "fst (get_file_names ?E ?L) = Inr [''a.pdf'']" by code_simp
  have b: "fst (get_image_files ?E ?L) = Inr [''b.png'']" by code_simp
  have c: "fst (get_office_files ?E [''.docx'', ''q''] ''Word'' ?L) = Inr [''c.docx'']"
    by code_simp
  from collectors_never_return_q
    [of ?E ?L "[''a.pdf'']" "[''b.png'']" "[''.docx'', ''q'']" "''Word''" "[''c.docx'']"] a b c
  have "lower ''a.pdf'' \<noteq> ''q'' \<and> lower ''b.png'' \<noteq> ''q'' \<and> lower ''c.docx'' \<noteq> ''q''"
    by simp
  with v a b c show ?thesis by blast
qed

subsection \<open>The output filename\<close>

lemma endswith_append: "endswith (s @ suf) suf"
  by (simp add: endswith_def)

lemma lower_append: "lower (s @ t) = lower s @ lower t"
  by (simp add: lower_def)

lemma lower_pdf: "lower ''.pdf'' = ''.pdf''"
  by code_simp

lemma endswith_lower_suffixed: "endswith (lower (s @ ''.pdf'')) ''.pdf''"
  by (simp only: lower_append lower_pdf endswith_append)

lemma get_output_filename_loop_accepts:
  "get_output_filename_loop default_name out lines = (Inr name, out', rest) \<Longrightarrow>
   \<exists>pre line. lines = pre @ line # rest
     \<and> name = (if endswith (lower (entered_name default_name line)) ''.pdf''
               then entered_name default_name line
               else entered_name default_name line @ ''.pdf'')
     \<and> dirname name = []"
proof (induction lines arbitrary: out)
  case Nil
  then show ?case by simp
next
  case (Cons l ls)
  let ?n = "if endswith (lower (entered_name default_name l)) ''.pdf''
            then entered_name default_name l
            else entered_name default_name l @ ''.pdf''"
  show ?case
  proof (cases "dirname ?n = []")
    case True
    with Cons.prems have "name = ?n" and "rest = ls"
      by (auto simp: entered_name_def Let_def split: if_splits)
    with True have "l # ls = [] @ l # rest \<and> name = ?n \<and> dirname name = []" by simp
    then show ?thesis by blast
  next
    case False
    with Cons.prems
    have "get_output_filename_loop default_name (out @ [FilenameOnly]) ls = (Inr name, out', rest)"
      by (auto simp: entered_name_def Let_def split: if_splits)
    from Cons.IH [OF this] obtain pre line where
      "ls = pre @ line # rest"
      "name = (if endswith (lower (entered_name default_name line)) ''.pdf''
               then entered_name default_name line
               else entered_name default_name line @ ''.pdf'')"
      "dirname name = []"
      by blast
    then have "l # ls = (l # pre) @ line # rest
      \<and> name = (if endswith (lower (entered_name default_name line)) ''.pdf''
               then entered_name default_name line
               else entered_name default_name line @ ''.pdf'')
      \<and> dirname name = []"
      by simp
    then show ?thesis by blast
  qed
qed

text \<open>
  C7. Whenever the output-filename routine accepts a name, it took it from one input
  line (the lines before it were refused as paths, the lines after it are unread). With
  the entered name of that line (the line stripped, or the default name for an empty
  line): if the entered name does not end in \<open>.pdf\<close> in any letter case, the result is
  the entered name with \<open>.pdf\<close> appended once; if it does, the result is the entered
  name itself. Either way the result ends in \<open>.pdf\<close> in some letter case, so a second
  pass would add nothing, and it has no directory component.
\<close>

theorem output_filename_suffixed_once:
  assumes "get_output_filename default_name lines = (Inr name, out, rest)"
  shows "\<exists>pre line. lines = pre @ line # rest
     \<and> (\<not> endswith (lower (entered_name default_name line)) ''.pdf'' \<longrightarrow>
          name = entered_name default_name line @ ''.pdf'')
     \<and> (endswith (lower (entered_name default_name line)) ''.pdf'' \<longrightarrow>
          name = entered_name default_name line)
     \<and> endswith (lower name) ''.pdf''
     \<and> CHR ''/'' \<notin> set name"
proof -
  from assms obtain pre line where
    l: "lines = pre @ line # rest" and
    n: "name = (if endswith (lower (entered_name default_name line)) ''.pdf''
               then entered_name default_name line
               else entered_name default_name line @ ''.pdf'')" and
    d: "dirname name = []"
    unfolding get_output_filename_def
    using get_output_filename_loop_accepts by blast
  from n have e: "endswith (lower name) ''.pdf''"
    by (simp add: endswith_lower_suffixed split: if_splits)
  from d have s: "CHR ''/'' \<notin> set name"
    using dirname_nonempty_iff by blast
  from l n e s show ?thesis by auto
qed

theorem output_filename_suffixed_once_witness:
  "get_output_filename ''merged.pdf'' [''out/report'', '' Report.PDF '', ''x'']
     = (Inr ''Report.PDF'', [FilenameOnly], [''x''])
   \<and> get_output_filename ''merged.pdf'' [''report''] = (Inr ''report.pdf'', [], [])
   \<and> get_output_filename ''merged.pdf'' [''''] = (Inr ''merged.pdf'', [], [])
   \<and> (\<exists>pre line. [''report''] = pre @ line # []
        \<and> endswith (lower ''report.pdf'') ''.pdf'')"
proof -
  have a: "get_output_filename ''merged.pdf'' [''out/report'', '' Report.PDF '', ''x'']
     = (Inr ''Report.PDF'', [FilenameOnly], [''x''])" by code_simp
  have b: "get_output_filename ''merged.pdf'' [''report''] = (Inr ''report.pdf'', [], [])"
    by code_simp
  have c: "get_output_filename ''merged.pdf'' [''''] = (Inr ''merged.pdf'', [], [])"
    by code_simp
  from output_filename_suffixed_once [OF b]
  have "\<exists>pre line. [''report''] = pre @ line # []
        \<and> endswith (lower ''report.pdf'') ''.pdf''"
    by blast
  with a b c show ?thesis by blast
qed

subsection \<open>The PDF merge driver\<close>

lemma failed_appends_Cons:
  "failed_appends ap (f # fs) = (if isl (ap f) then 1 else 0) + failed_appends ap fs"
  by (simp add: failed_appends_def)

lemma merge_loop_eq:
  "merge_loop ap merger error_count out file_paths =
     (merger @ concat (map (pages_of ap) file_paths),
      error_count + failed_appends ap file_paths,
      out @ map (append_echo ap) file_paths)"
proof (induction file_paths arbitrary: merger error_count out)
  case Nil
  show ?case by (simp add: failed_appends_def)
next
  case (Cons f fs)
  show ?case
  proof (cases "ap f")
    case (Inl x)
    then show ?thesis
      by (simp add: Cons.IH pages_of_def append_echo_def failed_appends_Cons)
  next
    case (Inr pages)
    then show ?thesis
      by (simp add: Cons.IH pages_of_def append_echo_def failed_appends_Cons)
  qed
qed

text \<open>
  C3. For every input list, every file is attempted in order: a failed append is
  reported, counted and contributes no page, and the files after it are still appended.
  The merged document holds the pages of the files that were appended, in input order.
  When the final write succeeds, the report is printed with succeeded = length of the
  input list minus the number of failed appends, and failed = the number of failed
  appends; when the final write fails, the critical error is printed in its place.
\<close>

theorem merge_pdfs_counts:
  "merge_pdfs ap wr cwd file_paths output_filename =
     (case wr output_filename (concat (map (pages_of ap) file_paths)) of
        WriteOk \<Rightarrow>
          (cwd(output_filename \<mapsto> Pdf (concat (map (pages_of ap) file_paths))),
           map (append_echo ap) file_paths @
             [Created output_filename,
              Stats (int (length file_paths) - failed_appends ap file_paths)
                (failed_appends ap file_paths)])
      | WriteFails x wrote \<Rightarrow>
          (left_behind cwd output_filename wrote,
           map (append_echo ap) file_paths @ [Critical (str x)]))"
  by (simp add: merge_pdfs_def merge_loop_eq)

text \<open>The example of the claim: \<open>a.pdf\<close> has two pages, \<open>b.pdf\<close> is corrupt.\<close>

theorem merge_pdfs_counts_witness:
  "fst (merge_pdfs
         (\<lambda>f. if f = ''a.pdf'' then Inr [1, 2 :: nat] else Inl (LibraryError ''EOF marker not found''))
         (\<lambda>output merger. WriteOk) Map.empty [''a.pdf'', ''b.pdf''] ''merged.pdf'') ''merged.pdf''
     = Some (Pdf [1, 2])
   \<and> snd (merge_pdfs
         (\<lambda>f. if f = ''a.pdf'' then Inr [1, 2 :: nat] else Inl (LibraryError ''EOF marker not found''))
         (\<lambda>output merger. WriteOk) Map.empty [''a.pdf'', ''b.pdf''] ''merged.pdf'')
     = [Added ''a.pdf'', Failed ''b.pdf'' ''EOF marker not found'', Created ''merged.pdf'',
        Stats 1 1]"
  using merge_pdfs_counts
    [of "\<lambda>f. if f = ''a.pdf'' then Inr [1, 2 :: nat] else Inl (LibraryError ''EOF marker not found'')"
        "\<lambda>output merger. WriteOk" Map.empty "[''a.pdf'', ''b.pdf'']" "''merged.pdf''"]
  by (simp add: pages_of_def append_echo_def failed_appends_def)

text \<open>
  C2 fails on the merge driver. One file is appended, the output is opened for writing
  and the write then raises: the driver prints the critical error and returns, and the
  partial file is still on disk under the output name. (The \<open>except\<close> blocks of
  \<open>convert_blog\<close> and \<open>convert_images_to_pdf\<close> remove the output file; the one of
  \<open>merge_pdfs\<close> does not.)
\<close>

theorem merge_pdfs_write_failure_leaves_partial:
  "fst (merge_pdfs (\<lambda>f. Inr [1 :: nat])
         (\<lambda>output merger. WriteFails (LibraryError ''No space left on device'') True)
         Map.empty [''a.pdf''] ''merged.pdf'') ''merged.pdf''
     = Some Partial
   \<and> snd (merge_pdfs (\<lambda>f. Inr [1 :: nat])
         (\<lambda>output merger. WriteFails (LibraryError ''No space left on device'') True)
         Map.empty [''a.pdf''] ''merged.pdf'')
     = [Added ''a.pdf'', Critical ''No space left on device'']"
  by (simp add: merge_pdfs_def left_behind_def)


subsection \<open>The blog driver\<close>

lemma remove_if_exists_at [simp]: "remove_if_exists cwd name name = None"
  by (simp add: remove_if_exists_def)

lemma remove_if_exists_other [simp]: "f \<noteq> name \<Longrightarrow> remove_if_exists cwd name f = cwd f"
  by (simp add: remove_if_exists_def)

lemma left_behind_other [simp]: "f \<noteq> name \<Longrightarrow> left_behind cwd name wrote f = cwd f"
  by (simp add: left_behind_def)

text \<open>
  C8. When the fetch, the extraction or the render raises, the blog driver prints the
  conversion error with the exception's text as its last message, no file exists at the
  output filename when it returns (whether the renderer left a partial file there or
  not, and whether a file of that name existed before), and no other file is touched.
\<close>

theorem convert_blog_failure_removes_output:
  assumes "requests_get lib url = Inl x
     \<or> (\<exists>t. requests_get lib url = Inr t \<and> doc_summary lib t = Inl x)
     \<or> (\<exists>t c wrote. requests_get lib url = Inr t \<and> doc_summary lib t = Inr c
           \<and> from_string lib (add_pdf_styles c) output_filename = RenderFails x wrote)"
  shows "fst (convert_blog lib cwd url output_filename) output_filename = None
     \<and> last (snd (convert_blog lib cwd url output_filename)) = ConversionFailed (str x)
     \<and> (\<forall>f. f \<noteq> output_filename \<longrightarrow>
           fst (convert_blog lib cwd url output_filename) f = cwd f)"
  using assms
  by (auto simp: convert_blog_def conversion_failed_def)

text \<open>The fetch answers 404 while a file of the output name is on disk from before.\<close>

theorem convert_blog_failure_removes_output_witness:
  "fst (convert_blog
         \<lparr>requests_get = (\<lambda>u. Inl (LibraryError ''404 Client Error: Not Found'')),
          doc_summary = (\<lambda>t. Inr t), doc_title = (\<lambda>t. Inr ''Title''),
          from_string = (\<lambda>html output. Rendered [0 :: nat])\<rparr>
         (Map.empty(''blog_post.pdf'' \<mapsto> Partial)) ''https://example.com/blog/x'' ''blog_post.pdf'')
       ''blog_post.pdf'' = None
   \<and> last (snd (convert_blog
         \<lparr>requests_get = (\<lambda>u. Inl (LibraryError ''404 Client Error: Not Found'')),
          doc_summary = (\<lambda>t. Inr t), doc_title = (\<lambda>t. Inr ''Title''),
          from_string = (\<lambda>html output. Rendered [0 :: nat])\<rparr>
         (Map.empty(''blog_post.pdf'' \<mapsto> Partial)) ''https://example.com/blog/x'' ''blog_post.pdf''))
       = ConversionFailed ''404 Client Error: Not Found''"
proof -
  let ?lib = "\<lparr>requests_get = (\<lambda>u. Inl (LibraryError ''404 Client Error: Not Found'')),
          doc_summary = (\<lambda>t. Inr t), doc_title = (\<lambda>t. Inr ''Title''),
          from_string = (\<lambda>html output. Rendered [0 :: nat])\<rparr>"
  have h: "requests_get ?lib ''https://example.com/blog/x''
             = Inl (LibraryError ''404 Client Error: Not Found'')
     \<or> (\<exists>t. requests_get ?lib ''https://example.com/blog/x'' = Inr t
           \<and> doc_summary ?lib t = Inl (LibraryError ''404 Client Error: Not Found''))
     \<or> (\<exists>t c wrote. requests_get ?lib ''https://example.com/blog/x'' = Inr t
           \<and> doc_summary ?lib t = Inr c
           \<and> from_string ?lib (add_pdf_styles c) ''blog_post.pdf''
               = RenderFails (LibraryError ''404 Client Error: Not Found'') wrote)"
    by simp
  from convert_blog_failure_removes_output
    [OF h, of "Map.empty(''blog_post.pdf'' \<mapsto> Partial)"]
  show ?thesis by simp
qed


subsection \<open>The image driver\<close>








subsection \<open>The office driver\<close>



text \<open>
  During the run the directory exists and holds the converted files. Two inputs of the
  same stem share one path in it, the later conversion replacing the file of the
  earlier one after that one was merged; an input for which the converter writes nothing
  finds the file of the same stem left there and merges it again.
\<close>

lemma office_loop_same_stem:
  "office_loop
     \<lparr>libreoffice = (\<lambda>outdir input.
         if input = ''a.docx'' then Exited (Some (Pdf [101 :: nat]))
         else if input = ''a.doc'' then Exited (Some (Pdf [102]))
         else if input = ''b.docx'' then Exited (Some (Pdf [103]))
         else Exited None),
      office_append = (\<lambda>c. case c of Pdf ps \<Rightarrow> Inr ps
                             | Partial \<Rightarrow> Inl (LibraryError ''EOF marker not found'')),
      office_write = (\<lambda>output merger. WriteOk),
      mkdtemp = ''/tmp/tmpk3x''\<rparr>
     ''Word'' [] 0 [] [] [''a.docx'', ''a.doc'', ''b.docx'', ''c.docx'']
   = ([101, 102, 103], 1,
      [(''/tmp/tmpk3x/b.pdf'', Pdf [103]), (''/tmp/tmpk3x/a.pdf'', Pdf [102])],
      [Converted ''a.docx'', Converted ''a.doc'', Converted ''b.docx'',
       ErrorConverting ''c.docx'' ''Word conversion failed''])"
  by code_simp

text \<open>
  The final write of the merge driver and of the office driver, in general: when it
  raises after the output was opened, the partial file stays under the output name.
\<close>

lemma merge_pdfs_write_failure:
  assumes "wr output_filename (concat (map (pages_of ap) file_paths)) = WriteFails x True"
  shows "fst (merge_pdfs ap wr cwd file_paths output_filename) output_filename = Some Partial"
  using assms by (simp add: merge_pdfs_def merge_loop_eq left_behind_def)

lemma office_write_failure_leaves_partial:
  "(case handle_office_conversion
           \<lparr>path_exists = (\<lambda>f. True), PdfReader = (\<lambda>f. None), Image_verify = (\<lambda>f. None)\<rparr>
           \<lparr>libreoffice = (\<lambda>outdir input. Exited (Some (Pdf [0 :: nat]))),
            office_append = (\<lambda>c. case c of Pdf ps \<Rightarrow> Inr ps
                                   | Partial \<Rightarrow> Inl (LibraryError ''EOF marker not found'')),
            office_write = (\<lambda>output merger. WriteFails (LibraryError ''No space left on device'') True),
            mkdtemp = ''/tmp/tmpk3x''\<rparr>
           \<lparr>disk = Map.empty, tmp = None\<rparr>
           ''Word'' [''.docx'', ''.doc''] ''word_merged.pdf'' [''a.docx'', ''q'', ''out'']
    of (raised, w, out, rest) \<Rightarrow>
         raised = None \<and> tmp w = None \<and> disk w ''out.pdf'' = Some Partial
         \<and> last out = Critical ''No space left on device'')"
  by code_simp

end
